theory Spec2Isabelle
  imports Complex_Main "HOL-Library.Sublist"
begin

section \<open>Values of a table\<close>

text \<open>
  The pipeline step \<^verbatim>\<open>src/basic_cleaning/run.py\<close> reads a table, keeps the rows whose
  price lies between two bounds, converts the column \<^verbatim>\<open>last_review\<close> to dates, keeps the
  rows inside a fixed geographic box, and publishes the result.

  A number of the table is a double. The program only compares numbers, and a comparison of
  doubles is exact, so a finite double is modelled by the real number it denotes; the two
  infinities and NaN are values of their own.
\<close>

datatype float64 = NaN | NegInf | Fin real | PosInf

text \<open>Python's \<^verbatim>\<open>a <= b\<close> on doubles: false as soon as one side is NaN.\<close>

fun fle :: "float64 \<Rightarrow> float64 \<Rightarrow> bool" where
  "fle NaN b = False"
| "fle a NaN = False"
| "fle NegInf b = True"
| "fle a PosInf = True"
| "fle (Fin a) (Fin b) = (a \<le> b)"
| "fle a b = False"

text \<open>Python's \<^verbatim>\<open>a >= b\<close> and \<^verbatim>\<open>a > b\<close>.\<close>

definition fge :: "float64 \<Rightarrow> float64 \<Rightarrow> bool" where
  "fge a b = fle b a"

definition fgt :: "float64 \<Rightarrow> float64 \<Rightarrow> bool" where
  "fgt a b = (fle b a \<and> \<not> fle a b)"

text \<open>
  A value of a \<^verbatim>\<open>datetime64[ns]\<close> column: a timestamp in nanoseconds since the epoch, or
  the null date \<^verbatim>\<open>NaT\<close>.
\<close>

datatype datetime = NaT | Timestamp int

text \<open>
  A cell holds a number (a missing value is the number NaN), a boolean, a string or a
  date.
\<close>

datatype cell = Num float64 | Bool bool | Str string | Dt datetime

datatype error =
    ArtifactNotFound
  | ParserError
  | KeyError string
  | TypeError
  | ValueError
  | OutOfBoundsDatetime
  | IndexingError
  | OSError
  | FileNotFoundError
  | UploadError

section \<open>Data frames\<close>

text \<open>
  A record of the table maps column names to values. A data frame is the list of its
  column names and the list of its records in order, each with its index label (the
  labels survive row selection). The operations of the pandas library that the program
  calls follow the documented behaviour of the library, with the defaults of the
  arguments that the program does not give.
\<close>

type_synonym row = "string \<rightharpoonup> cell"

record data_frame =
  columns :: "string list"
  rows :: "(nat \<times> row) list"

text \<open>The value of a record in a column; a value that is not there is missing (NaN).\<close>

definition lookup :: "row \<Rightarrow> string \<Rightarrow> cell" where
  "lookup r c = (case r c of None \<Rightarrow> Num NaN | Some v \<Rightarrow> v)"

text \<open>
  Applying to each element of a series an operation that may raise: the first exception
  ends the traversal.
\<close>

fun collect :: "('a \<Rightarrow> error + 'b) \<Rightarrow> 'a list \<Rightarrow> error + 'b list" where
  "collect f [] = Inr []"
| "collect f (x # xs) =
     (case f x of
        Inl e \<Rightarrow> Inl e
      | Inr y \<Rightarrow> (case collect f xs of Inl e \<Rightarrow> Inl e | Inr ys \<Rightarrow> Inr (y # ys)))"

text \<open>\<^verbatim>\<open>data_frame[c]\<close>: the series of a column, \<^verbatim>\<open>KeyError\<close> when there is no such column.\<close>

definition getitem :: "data_frame \<Rightarrow> string \<Rightarrow> error + cell list" where
  "getitem df c =
     (if c \<in> set (columns df) then Inr (map (\<lambda>(i, r). lookup r c) (rows df))
      else Inl (KeyError c))"

text \<open>
  \<^verbatim>\<open>Series.between(left, right)\<close> is \<^verbatim>\<open>(self >= left) & (self <= right)\<close>, both ends
  included. A boolean compares as 0 or 1; comparing a string or a date with a number raises
  \<^verbatim>\<open>TypeError\<close>.
\<close>

fun between_cell :: "float64 \<Rightarrow> float64 \<Rightarrow> cell \<Rightarrow> error + bool" where
  "between_cell left right (Num x) = Inr (fge x left \<and> fle x right)"
| "between_cell left right (Bool b) =
     Inr (fge (Fin (if b then 1 else 0)) left \<and> fle (Fin (if b then 1 else 0)) right)"
| "between_cell left right (Str s) = Inl TypeError"
| "between_cell left right (Dt d) = Inl TypeError"

definition between :: "cell list \<Rightarrow> float64 \<Rightarrow> float64 \<Rightarrow> error + bool list" where
  "between s left right = collect (between_cell left right) s"

text \<open>\<^verbatim>\<open>a & b\<close> on two boolean series.\<close>

definition series_and :: "bool list \<Rightarrow> bool list \<Rightarrow> bool list" where
  "series_and a b = map2 (\<and>) a b"

text \<open>
  \<^verbatim>\<open>data_frame[idx].copy()\<close> with a boolean series \<^verbatim>\<open>idx\<close>: the records at the positions
  where \<^verbatim>\<open>idx\<close> is true, in order, with their labels; the columns stay.
\<close>

definition select_rows :: "data_frame \<Rightarrow> bool list \<Rightarrow> error + data_frame" where
  "select_rows df idx =
     (if length idx = length (rows df)
      then Inr (df\<lparr>rows := map fst (filter snd (zip (rows df) idx))\<rparr>)
      else Inl IndexingError)"

text \<open>
  The parts of the libraries that the program uses but that work on text: they are
  parameters of the model.
  \<^item> \<open>read_csv\<close> parses the records of a file into a data frame, or raises;
  \<^item> \<open>parse_datetime\<close> is the date parser for one string (\<open>None\<close>: not a date);
  \<^item> \<open>from_epoch\<close> reads a number that is not NaN as a date (\<open>None\<close>: out of bounds);
  \<^item> \<open>render\<close> and \<open>render_label\<close> print a cell and an index label.
\<close>

type_synonym csv = "string list list"

record lib =
  read_csv :: "csv \<Rightarrow> error + data_frame"
  parse_datetime :: "string \<Rightarrow> datetime option"
  from_epoch :: "float64 \<Rightarrow> datetime option"
  render :: "cell \<Rightarrow> string"
  render_label :: "nat \<Rightarrow> string"

text \<open>
  \<^verbatim>\<open>pd.to_datetime(series)\<close> with its default \<^verbatim>\<open>errors='raise'\<close>, element by element:
  a missing value becomes \<^verbatim>\<open>NaT\<close>, a date stays, a string is parsed and raises
  \<^verbatim>\<open>ValueError\<close> when it is not a date, another number is read as a time since the epoch
  and raises when it is out of bounds, a boolean raises \<^verbatim>\<open>TypeError\<close>.
\<close>

fun to_datetime_cell :: "lib \<Rightarrow> cell \<Rightarrow> error + cell" where
  "to_datetime_cell L (Num NaN) = Inr (Dt NaT)"
| "to_datetime_cell L (Num x) =
     (case from_epoch L x of None \<Rightarrow> Inl OutOfBoundsDatetime | Some d \<Rightarrow> Inr (Dt d))"
| "to_datetime_cell L (Bool b) = Inl TypeError"
| "to_datetime_cell L (Str s) =
     (case parse_datetime L s of None \<Rightarrow> Inl ValueError | Some d \<Rightarrow> Inr (Dt d))"
| "to_datetime_cell L (Dt d) = Inr (Dt d)"

definition to_datetime :: "lib \<Rightarrow> cell list \<Rightarrow> error + cell list" where
  "to_datetime L s = collect (to_datetime_cell L) s"

text \<open>
  \<^verbatim>\<open>data_frame[c] = values\<close>: the column \<open>c\<close> of each record is replaced (a new column is
  added at the end); \<^verbatim>\<open>ValueError\<close> when the lengths differ.
\<close>

definition setitem :: "data_frame \<Rightarrow> string \<Rightarrow> cell list \<Rightarrow> error + data_frame" where
  "setitem df c vals =
     (if length vals = length (rows df)
      then Inr \<lparr>columns = (if c \<in> set (columns df) then columns df else columns df @ [c]),
                rows = map (\<lambda>((i, r), v). (i, r(c \<mapsto> v))) (zip (rows df) vals)\<rparr>
      else Inl ValueError)"

section \<open>The cleaning steps of \<^verbatim>\<open>go_function\<close>\<close>

text \<open>
  The literals of the bounding box. \<^verbatim>\<open>-74.25\<close>, \<^verbatim>\<open>-73.50\<close> and \<^verbatim>\<open>40.5\<close> are doubles;
  \<^verbatim>\<open>41.2\<close> denotes the double nearest to it, \<open>2899192260119757 / 2 ^ 46\<close>.
\<close>

definition lon_min :: float64 where "lon_min = Fin (- 74.25)"
definition lon_max :: float64 where "lon_max = Fin (- 73.50)"
definition lat_min :: float64 where "lat_min = Fin 40.5"
definition lat_max :: float64 where "lat_max = Fin (2899192260119757 / 2 ^ 46)"

text \<open>
  Lines 39 to 42: \<^verbatim>\<open>idx = data_frame['price'].between(min_price, max_price)\<close>, then
  \<^verbatim>\<open>data_frame = data_frame[idx].copy()\<close>.
\<close>

definition drop_outliers :: "float64 \<Rightarrow> float64 \<Rightarrow> data_frame \<Rightarrow> error + data_frame" where
  "drop_outliers min_price max_price df =
     (case getitem df ''price'' of
        Inl e \<Rightarrow> Inl e
      | Inr price \<Rightarrow>
          (case between price min_price max_price of
             Inl e \<Rightarrow> Inl e
           | Inr idx \<Rightarrow> select_rows df idx))"

text \<open>
  Line 44: \<^verbatim>\<open>data_frame['last_review'] = pd.to_datetime(data_frame['last_review'])\<close>.
\<close>

definition convert_last_review :: "lib \<Rightarrow> data_frame \<Rightarrow> error + data_frame" where
  "convert_last_review L df =
     (case getitem df ''last_review'' of
        Inl e \<Rightarrow> Inl e
      | Inr last_review \<Rightarrow>
          (case to_datetime L last_review of
             Inl e \<Rightarrow> Inl e
           | Inr dates \<Rightarrow> setitem df ''last_review'' dates))"

text \<open>
  Lines 46 and 47: the longitude mask is computed first, then the latitude mask, then
  their conjunction selects the rows.
\<close>

definition bounding_box :: "data_frame \<Rightarrow> error + data_frame" where
  "bounding_box df =
     (case getitem df ''longitude'' of
        Inl e \<Rightarrow> Inl e
      | Inr longitude \<Rightarrow>
          (case between longitude lon_min lon_max of
             Inl e \<Rightarrow> Inl e
           | Inr a \<Rightarrow>
               (case getitem df ''latitude'' of
                  Inl e \<Rightarrow> Inl e
                | Inr latitude \<Rightarrow>
                    (case between latitude lat_min lat_max of
                       Inl e \<Rightarrow> Inl e
                     | Inr b \<Rightarrow> select_rows df (series_and a b)))))"

text \<open>Lines 39 to 47 together: from the table read to the table written.\<close>

definition clean :: "lib \<Rightarrow> float64 \<Rightarrow> float64 \<Rightarrow> data_frame \<Rightarrow> error + data_frame" where
  "clean L min_price max_price df =
     (case drop_outliers min_price max_price df of
        Inl e \<Rightarrow> Inl e
      | Inr df1 \<Rightarrow>
          (case convert_last_review L df1 of
             Inl e \<Rightarrow> Inl e
           | Inr df2 \<Rightarrow> bounding_box df2))"

section \<open>The tracking service and the local disk\<close>

text \<open>
  Modelled from the spec: the artifact-tracking client and the file system are not part of
  the repository. The spec gives the service two operations, \<^verbatim>\<open>resolve(name)\<close> and
  \<^verbatim>\<open>publish(local_path, name, type, description)\<close>, each of which may fail. An artifact is
  a named, typed, described file; the service is the list of the artifacts registered so
  far, newest first. The disk maps a path to the records of the file there. Whether a path
  can be written and whether an upload goes through are given by the world.
\<close>

record artifact =
  aname :: string
  atype :: string
  adescription :: string
  afile :: "csv option"

record world =
  server :: "artifact list"
  disk :: "string \<rightharpoonup> csv"
  can_write :: "string \<Rightarrow> bool"
  link_ok :: bool

record args =
  input_artifact :: string
  output_artifact :: string
  output_type :: string
  output_description :: string
  min_price :: float64
  max_price :: float64

definition write_file :: "world \<Rightarrow> string \<Rightarrow> csv \<Rightarrow> error + world" where
  "write_file w path f =
     (if can_write w path then Inr (w\<lparr>disk := (disk w)(path \<mapsto> f)\<rparr>) else Inl OSError)"

text \<open>\<^verbatim>\<open>run.use_artifact(name)\<close>: the newest artifact of that name.\<close>

definition use_artifact :: "world \<Rightarrow> string \<Rightarrow> error + artifact" where
  "use_artifact w n =
     (case find (\<lambda>a. aname a = n) (server w) of
        None \<Rightarrow> Inl ArtifactNotFound
      | Some a \<Rightarrow> Inr a)"

text \<open>\<^verbatim>\<open>artifact.file()\<close>: downloads the file of the artifact and returns its local path.\<close>

definition local_path :: "artifact \<Rightarrow> string" where
  "local_path a = ''./artifacts/'' @ aname a"

definition artifact_file :: "world \<Rightarrow> artifact \<Rightarrow> error + string \<times> world" where
  "artifact_file w a =
     (case afile a of
        None \<Rightarrow> Inl ArtifactNotFound
      | Some f \<Rightarrow>
          (case write_file w (local_path a) f of
             Inl e \<Rightarrow> Inl e
           | Inr w' \<Rightarrow> Inr (local_path a, w')))"

text \<open>\<^verbatim>\<open>pd.read_csv(path)\<close>.\<close>

definition pd_read_csv :: "lib \<Rightarrow> world \<Rightarrow> string \<Rightarrow> error + data_frame" where
  "pd_read_csv L w path =
     (case disk w path of None \<Rightarrow> Inl FileNotFoundError | Some f \<Rightarrow> read_csv L f)"

text \<open>
  \<^verbatim>\<open>data_frame.to_csv(filename, index=index)\<close>: the header, then one record for each row;
  with \<^verbatim>\<open>index=True\<close> a first column holds the labels, under an empty name.
\<close>

definition to_csv :: "lib \<Rightarrow> data_frame \<Rightarrow> bool \<Rightarrow> csv" where
  "to_csv L df index =
     (if index
      then ('''' # columns df) #
           map (\<lambda>(i, r). render_label L i # map (\<lambda>c. render L (lookup r c)) (columns df))
             (rows df)
      else columns df #
           map (\<lambda>(i, r). map (\<lambda>c. render L (lookup r c)) (columns df)) (rows df))"

text \<open>\<^verbatim>\<open>artifact.add_file(filename)\<close>, \<^verbatim>\<open>run.log_artifact(artifact)\<close>, \<^verbatim>\<open>os.remove(filename)\<close>.\<close>

definition add_file :: "world \<Rightarrow> artifact \<Rightarrow> string \<Rightarrow> error + artifact" where
  "add_file w a path =
     (case disk w path of
        None \<Rightarrow> Inl FileNotFoundError
      | Some f \<Rightarrow> Inr (a\<lparr>afile := Some f\<rparr>))"

definition log_artifact :: "world \<Rightarrow> artifact \<Rightarrow> error + world" where
  "log_artifact w a =
     (if link_ok w then Inr (w\<lparr>server := a # server w\<rparr>) else Inl UploadError)"

definition os_remove :: "world \<Rightarrow> string \<Rightarrow> error + world" where
  "os_remove w path =
     (case disk w path of
        None \<Rightarrow> Inl FileNotFoundError
      | Some f \<Rightarrow> Inr (w\<lparr>disk := (disk w)(path := None)\<rparr>))"

section \<open>\<^verbatim>\<open>go_function\<close>\<close>

text \<open>
  The run handle that \<^verbatim>\<open>wandb.init\<close> returns is the world the function works in. Each
  step either raises, and the function ends there with the world as it is at that moment,
  or goes on.

  Lines 31 to 36: the input artifact is resolved and downloaded, the file is parsed.
\<close>

definition read_input :: "lib \<Rightarrow> args \<Rightarrow> world \<Rightarrow> (error + data_frame) \<times> world" where
  "read_input L a w =
     (case use_artifact w (input_artifact a) of
        Inl e \<Rightarrow> (Inl e, w)
      | Inr artifact \<Rightarrow>
          (case artifact_file w artifact of
             Inl e \<Rightarrow> (Inl e, w)
           | Inr (artifact_path, w1) \<Rightarrow> (pd_read_csv L w1 artifact_path, w1)))"

text \<open>Lines 31 to 51: up to the file written by \<^verbatim>\<open>to_csv(filename, index=False)\<close>.\<close>

definition write_output :: "lib \<Rightarrow> args \<Rightarrow> world \<Rightarrow> (error + unit) \<times> world" where
  "write_output L a w =
     (case read_input L a w of
        (Inl e, w1) \<Rightarrow> (Inl e, w1)
      | (Inr df, w1) \<Rightarrow>
          (case clean L (min_price a) (max_price a) df of
             Inl e \<Rightarrow> (Inl e, w1)
           | Inr df' \<Rightarrow>
               (case write_file w1 (output_artifact a) (to_csv L df' False) of
                  Inl e \<Rightarrow> (Inl e, w1)
                | Inr w2 \<Rightarrow> (Inr (), w2))))"

text \<open>Lines 53 to 63: the artifact is built, the file added, the artifact logged, the file removed.\<close>

definition publish :: "args \<Rightarrow> world \<Rightarrow> (error + unit) \<times> world" where
  "publish a w =
     (case add_file w
             \<lparr>aname = output_artifact a, atype = output_type a,
              adescription = output_description a, afile = None\<rparr>
             (output_artifact a) of
        Inl e \<Rightarrow> (Inl e, w)
      | Inr artifact \<Rightarrow>
          (case log_artifact w artifact of
             Inl e \<Rightarrow> (Inl e, w)
           | Inr w1 \<Rightarrow>
               (case os_remove w1 (output_artifact a) of
                  Inl e \<Rightarrow> (Inl e, w1)
                | Inr w2 \<Rightarrow> (Inr (), w2))))"

definition go_function :: "lib \<Rightarrow> args \<Rightarrow> world \<Rightarrow> (error + unit) \<times> world" where
  "go_function L a w =
     (case write_output L a w of
        (Inl e, w1) \<Rightarrow> (Inl e, w1)
      | (Inr u, w1) \<Rightarrow> publish a w1)"

section \<open>The words of the specification\<close>

text \<open>
  A value lies in the closed interval from \<open>lo\<close> to \<open>hi\<close>: it is a number (a boolean counts
  as 0 or 1) that is at least \<open>lo\<close> and at most \<open>hi\<close>.
\<close>

fun in_interval :: "float64 \<Rightarrow> float64 \<Rightarrow> cell \<Rightarrow> bool" where
  "in_interval lo hi (Num x) = (fle lo x \<and> fle x hi)"
| "in_interval lo hi (Bool b) = (fle lo (Fin (if b then 1 else 0)) \<and> fle (Fin (if b then 1 else 0)) hi)"
| "in_interval lo hi (Str s) = False"
| "in_interval lo hi (Dt d) = False"

text \<open>The three bounds of a record: the price range and the bounding box.\<close>

definition in_box :: "row \<Rightarrow> bool" where
  "in_box r =
     (in_interval lon_min lon_max (lookup r ''longitude'') \<and>
      in_interval lat_min lat_max (lookup r ''latitude''))"

definition in_bounds :: "float64 \<Rightarrow> float64 \<Rightarrow> row \<Rightarrow> bool" where
  "in_bounds lo hi r = (in_interval lo hi (lookup r ''price'') \<and> in_box r)"

text \<open>
  A row of the input appears in a table: the table has a record with the row's label that
  agrees with the row in every column but \<^verbatim>\<open>last_review\<close>.
\<close>

definition appears :: "nat \<times> row \<Rightarrow> data_frame \<Rightarrow> bool" where
  "appears x df =
     (\<exists>r'. (fst x, r') \<in> set (rows df) \<and> (\<forall>c. c \<noteq> ''last_review'' \<longrightarrow> r' c = snd x c))"

text \<open>A row without its \<^verbatim>\<open>last_review\<close>.\<close>

definition apart_from_last_review :: "nat \<times> row \<Rightarrow> nat \<times> row" where
  "apart_from_last_review x = (fst x, (snd x)(''last_review'' := None))"

section \<open>A sample run\<close>

text \<open>
  A table of three rows: the first inside all bounds, the second with a price out of
  range, the third with a longitude outside the box; and a library that knows the one date
  of the table.
\<close>

definition sample_row :: "real \<Rightarrow> real \<Rightarrow> real \<Rightarrow> string \<Rightarrow> row" where
  "sample_row p lon lat d =
     [''price'' \<mapsto> Num (Fin p), ''longitude'' \<mapsto> Num (Fin lon),
      ''latitude'' \<mapsto> Num (Fin lat), ''last_review'' \<mapsto> Str d]"

definition sample_kept :: row where
  "sample_kept = sample_row 50 (- 73.875) 40.75 ''2019-05-01''"

definition sample_columns :: "string list" where
  "sample_columns = [''price'', ''longitude'', ''latitude'', ''last_review'']"

definition sample_frame :: data_frame where
  "sample_frame =
     \<lparr>columns = sample_columns,
      rows = [(0, sample_kept),
              (1, sample_row 500 (- 73.875) 40.75 ''2019-05-01''),
              (2, sample_row 50 (- 75) 40.75 ''2019-05-01'')]\<rparr>"

definition sample_csv :: csv where
  "sample_csv =
     [[''price'', ''longitude'', ''latitude'', ''last_review''],
      [''50'', ''-73.875'', ''40.75'', ''2019-05-01''],
      [''500'', ''-73.875'', ''40.75'', ''2019-05-01''],
      [''50'', ''-75.0'', ''40.75'', ''2019-05-01'']]"

definition sample_parse :: "string \<Rightarrow> datetime option" where
  "sample_parse s = (if s = ''2019-05-01'' then Some (Timestamp 1556668800000000000) else None)"

definition sample_epoch :: "float64 \<Rightarrow> datetime option" where
  "sample_epoch x = (case x of Fin v \<Rightarrow> Some (Timestamp \<lfloor>v\<rfloor>) | _ \<Rightarrow> None)"

fun sample_render :: "cell \<Rightarrow> string" where
  "sample_render (Str s) = s"
| "sample_render (Num (Fin x)) =
     (if x = 50 then ''50'' else if x = - 73.875 then ''-73.875''
      else if x = 40.75 then ''40.75'' else ''?'')"
| "sample_render (Dt (Timestamp t)) =
     (if t = 1556668800000000000 then ''2019-05-01'' else ''?'')"
| "sample_render (Bool b) = (if b then ''True'' else ''False'')"
| "sample_render c = ''''"

definition sample_label :: "nat \<Rightarrow> string" where
  "sample_label i = replicate (Suc i) CHR ''|''"

definition sample_read_csv :: "csv \<Rightarrow> error + data_frame" where
  "sample_read_csv f = (if f = sample_csv then Inr sample_frame else Inl ParserError)"

definition sample_lib :: lib where
  "sample_lib =
     \<lparr>read_csv = sample_read_csv, parse_datetime = sample_parse, from_epoch = sample_epoch,
      render = sample_render, render_label = sample_label\<rparr>"

definition sample_args :: args where
  "sample_args =
     \<lparr>input_artifact = ''sample.csv:latest'', output_artifact = ''clean_sample.csv'',
      output_type = ''clean_sample'', output_description = ''Data with outliers removed'',
      min_price = Fin 10, max_price = Fin 100\<rparr>"

definition sample_world :: world where
  "sample_world =
     \<lparr>server = [\<lparr>aname = ''sample.csv:latest'', atype = ''raw_data'',
                 adescription = ''Raw file as downloaded'', afile = Some sample_csv\<rparr>],
      disk = Map.empty, can_write = (\<lambda>p. True), link_ok = True\<rparr>"

text \<open>The first row after the cleaning, and the cleaned table.\<close>

definition sample_out :: data_frame where
  "sample_out =
     \<lparr>columns = sample_columns,
      rows = [(0, sample_kept(''last_review'' \<mapsto> Dt (Timestamp 1556668800000000000)))]\<rparr>"

text \<open>A table whose only row has a price inside the bounds and a review date that is no date.\<close>

definition unparsable_frame :: data_frame where
  "unparsable_frame =
     \<lparr>columns = sample_columns, rows = [(0, sample_row 50 (- 73.875) 40.75 ''unknown'')]\<rparr>"

text \<open>A table whose only row is inside the bounds and has no review date.\<close>

definition missing_review_frame :: data_frame where
  "missing_review_frame =
     \<lparr>columns = sample_columns, rows = [(0, sample_kept(''last_review'' \<mapsto> Num NaN))]\<rparr>"

text \<open>A table whose only row has the price 100 and lies in the box.\<close>

definition boundary_frame :: data_frame where
  "boundary_frame =
     \<lparr>columns = sample_columns, rows = [(0, sample_row 100 (- 73.875) 40.75 ''2019-05-01'')]\<rparr>"

section \<open>Helpers of the proofs\<close>

text \<open>
  A row after line 44: its \<^verbatim>\<open>last_review\<close> is replaced by the date it converts to (the
  row is left as it is where the conversion raises, in which case the run has no result).
\<close>

definition converted :: "lib \<Rightarrow> nat \<times> row \<Rightarrow> nat \<times> row" where
  "converted L x =
     (case to_datetime_cell L (lookup (snd x) ''last_review'') of
        Inl e \<Rightarrow> x
      | Inr d \<Rightarrow> (fst x, (snd x)(''last_review'' \<mapsto> d)))"

text \<open>The values that compare with a number: numbers and booleans.\<close>

fun numeric :: "cell \<Rightarrow> bool" where
  "numeric (Num x) = True"
| "numeric (Bool b) = True"
| "numeric (Str s) = False"
| "numeric (Dt d) = False"

section \<open>Comparison of doubles\<close>

text \<open>
  The literal \<^verbatim>\<open>41.2\<close>: the value taken for it is a double of the binade of 32 to 64 (an
  integer of 53 bits over \<open>2 ^ 47\<close>) and lies less than half a unit in the last place from
  41.2.
\<close>

lemma lat_max_literal:
  "lat_max = Fin (5798384520239514 / 2 ^ 47) \<and>
   (2::nat) ^ 52 \<le> 5798384520239514 \<and> (5798384520239514::nat) < 2 ^ 53 \<and>
   \<bar>5798384520239514 / 2 ^ 47 - 41.2\<bar> < (1 / 2 ^ 48 :: real)"
  by (simp add: lat_max_def)

lemma fle_trans: "fle a b \<Longrightarrow> fle b c \<Longrightarrow> fle a c"
  by (cases a; cases b; cases c) simp_all

lemma fle_refl: "fle a b \<Longrightarrow> fle a a \<and> fle b b"
  by (cases a; cases b) simp_all

lemma fgt_empty: "fgt lo hi \<Longrightarrow> \<not> in_interval lo hi c"
  by (cases c) (auto simp: fgt_def dest: fle_trans)

section \<open>What each step returns when it returns\<close>

lemma collect_Inr:
  "collect f xs = Inr ys \<Longrightarrow> list_all2 (\<lambda>x y. f x = Inr y) xs ys"
proof (induction xs arbitrary: ys)
  case Nil
  then show ?case by simp
next
  case (Cons x xs)
  then show ?case by (auto split: sum.splits)
qed

lemma collect_all_Inr:
  "\<forall>x \<in> set xs. f x = Inr (g x) \<Longrightarrow> collect f xs = Inr (map g xs)"
  by (induction xs) auto

lemma list_all2_ex: "list_all2 P xs ys \<Longrightarrow> x \<in> set xs \<Longrightarrow> \<exists>y. P x y"
  by (induction xs ys rule: list_all2_induct) auto

lemma between_cell_Inr:
  "between_cell lo hi c = Inr b \<Longrightarrow> b = in_interval lo hi c"
  by (cases c) (auto simp: fge_def)

lemma between_cell_numeric: "numeric c \<Longrightarrow> between_cell lo hi c = Inr (in_interval lo hi c)"
  by (cases c) (auto simp: fge_def)

lemma in_interval_numeric: "in_interval lo hi c \<Longrightarrow> numeric c"
  by (cases c) simp_all

lemma mask_filter:
  "list_all2 (\<lambda>x b. b = p x) xs idx \<Longrightarrow> map fst (filter snd (zip xs idx)) = filter p xs"
  by (induction xs idx rule: list_all2_induct) auto

lemma select_by_predicate:
  "map fst (filter snd (zip xs (map p xs))) = filter p xs"
  by (induction xs) auto

lemma between_column:
  assumes "between (map (\<lambda>(i, r). lookup r c) xs) lo hi = Inr idx"
  shows "list_all2 (\<lambda>x b. b = in_interval lo hi (lookup (snd x) c)) xs idx"
proof -
  from assms have "list_all2 (\<lambda>v b. between_cell lo hi v = Inr b) (map (\<lambda>(i, r). lookup r c) xs) idx"
    unfolding between_def by (rule collect_Inr)
  then have "list_all2 (\<lambda>x b. between_cell lo hi (lookup (snd x) c) = Inr b) xs idx"
    by (simp add: list_all2_map1 case_prod_unfold)
  then show ?thesis
    by (rule list_all2_mono) (auto dest: between_cell_Inr)
qed

lemma between_ok:
  assumes "\<forall>x \<in> set xs. numeric (lookup (snd x) c)"
  shows "between (map (\<lambda>(i, r). lookup r c) xs) lo hi =
         Inr (map (\<lambda>x. in_interval lo hi (lookup (snd x) c)) xs)"
proof -
  have "collect (between_cell lo hi) (map (\<lambda>x. lookup (snd x) c) xs) =
        Inr (map (in_interval lo hi) (map (\<lambda>x. lookup (snd x) c) xs))"
    using assms by (intro collect_all_Inr) (auto simp: between_cell_numeric)
  then show ?thesis by (simp add: between_def case_prod_unfold comp_def)
qed

lemma drop_outliers_Inr:
  assumes "drop_outliers lo hi df = Inr df1"
  shows "columns df1 = columns df"
    and "rows df1 = filter (\<lambda>x. in_interval lo hi (lookup (snd x) ''price'')) (rows df)"
    and "''price'' \<in> set (columns df)"
proof -
  from assms obtain idx where
    k: "''price'' \<in> set (columns df)" and
    b: "between (map (\<lambda>(i, r). lookup r ''price'') (rows df)) lo hi = Inr idx" and
    s: "select_rows df idx = Inr df1"
    by (auto simp: drop_outliers_def getitem_def split: sum.splits if_splits)
  from s have d: "df1 = df\<lparr>rows := map fst (filter snd (zip (rows df) idx))\<rparr>"
    by (auto simp: select_rows_def split: if_splits)
  show "columns df1 = columns df" using d by simp
  show "''price'' \<in> set (columns df)" by (rule k)
  show "rows df1 = filter (\<lambda>x. in_interval lo hi (lookup (snd x) ''price'')) (rows df)"
    using d mask_filter [OF between_column [OF b]] by simp
qed

lemma drop_outliers_ok:
  assumes "''price'' \<in> set (columns df)"
    and "\<forall>x \<in> set (rows df). numeric (lookup (snd x) ''price'')"
  shows "drop_outliers lo hi df =
         Inr (df\<lparr>rows := filter (\<lambda>x. in_interval lo hi (lookup (snd x) ''price'')) (rows df)\<rparr>)"
  using assms(1) between_ok [OF assms(2), of lo hi]
  by (simp add: drop_outliers_def getitem_def select_rows_def select_by_predicate)

lemma zip_update:
  "list_all2 (\<lambda>x v. g x = Inr v) xs vals \<Longrightarrow>
   map (\<lambda>((i, r), v). (i, r(c \<mapsto> v))) (zip xs vals) =
   map (\<lambda>x. case g x of Inl e \<Rightarrow> x | Inr d \<Rightarrow> (fst x, (snd x)(c \<mapsto> d))) xs"
  by (induction xs vals rule: list_all2_induct) (auto simp: case_prod_unfold)

lemma zip_converted:
  "\<forall>x \<in> set xs. \<exists>d. to_datetime_cell L (lookup (snd x) ''last_review'') = Inr d \<Longrightarrow>
   map (\<lambda>((i, r), v). (i, r(''last_review'' \<mapsto> v)))
     (zip xs (map (\<lambda>x. projr (to_datetime_cell L (lookup (snd x) ''last_review''))) xs)) =
   map (converted L) xs"
  by (induction xs) (auto simp: converted_def)

lemma convert_last_review_Inr:
  assumes "convert_last_review L df = Inr df2"
  shows "columns df2 = columns df"
    and "rows df2 = map (converted L) (rows df)"
    and "''last_review'' \<in> set (columns df)"
    and "\<forall>x \<in> set (rows df). \<exists>d. to_datetime_cell L (lookup (snd x) ''last_review'') = Inr d"
proof -
  from assms obtain dates where
    k: "''last_review'' \<in> set (columns df)" and
    t: "to_datetime L (map (\<lambda>(i, r). lookup r ''last_review'') (rows df)) = Inr dates" and
    s: "setitem df ''last_review'' dates = Inr df2"
    by (auto simp: convert_last_review_def getitem_def split: sum.splits if_splits)
  from t have "list_all2 (\<lambda>v d. to_datetime_cell L v = Inr d)
      (map (\<lambda>(i, r). lookup r ''last_review'') (rows df)) dates"
    unfolding to_datetime_def by (rule collect_Inr)
  then have a: "list_all2 (\<lambda>x d. to_datetime_cell L (lookup (snd x) ''last_review'') = Inr d)
      (rows df) dates"
    by (simp add: list_all2_map1 case_prod_unfold)
  from s k have d: "df2 = \<lparr>columns = columns df,
      rows = map (\<lambda>((i, r), v). (i, r(''last_review'' \<mapsto> v))) (zip (rows df) dates)\<rparr>"
    by (auto simp: setitem_def split: if_splits)
  show "columns df2 = columns df" using d by simp
  show "''last_review'' \<in> set (columns df)" by (rule k)
  show "rows df2 = map (converted L) (rows df)"
    using d zip_update [OF a, of "''last_review''"] by (simp add: converted_def [abs_def])
  show "\<forall>x \<in> set (rows df). \<exists>d. to_datetime_cell L (lookup (snd x) ''last_review'') = Inr d"
    using a by (blast dest: list_all2_ex)
qed

lemma convert_last_review_ok:
  assumes "''last_review'' \<in> set (columns df)"
    and "\<forall>x \<in> set (rows df). \<exists>d. to_datetime_cell L (lookup (snd x) ''last_review'') = Inr d"
  shows "convert_last_review L df = Inr (df\<lparr>rows := map (converted L) (rows df)\<rparr>)"
proof -
  let ?g = "\<lambda>x. projr (to_datetime_cell L (lookup (snd x) ''last_review''))"
  have "collect (to_datetime_cell L) (map (\<lambda>x. lookup (snd x) ''last_review'') (rows df)) =
        Inr (map (\<lambda>v. projr (to_datetime_cell L v)) (map (\<lambda>x. lookup (snd x) ''last_review'') (rows df)))"
    using assms(2) by (intro collect_all_Inr) auto
  then have t: "to_datetime L (map (\<lambda>(i, r). lookup r ''last_review'') (rows df)) =
        Inr (map ?g (rows df))"
    by (simp add: to_datetime_def case_prod_unfold comp_def)
  have "map (\<lambda>((i, r), v). (i, r(''last_review'' \<mapsto> v))) (zip (rows df) (map ?g (rows df))) =
        map (converted L) (rows df)"
    using assms(2) by (intro zip_converted)
  then show ?thesis
    using assms(1) t by (simp add: convert_last_review_def getitem_def setitem_def)
qed

lemma box_column:
  assumes "between (map (\<lambda>(i, r). lookup r ''longitude'') xs) lon_min lon_max = Inr a"
    and "between (map (\<lambda>(i, r). lookup r ''latitude'') xs) lat_min lat_max = Inr b"
  shows "list_all2 (\<lambda>x v. v = in_box (snd x)) xs (series_and a b)"
proof -
  have la: "list_all2 (\<lambda>x v. v = in_interval lon_min lon_max (lookup (snd x) ''longitude'')) xs a"
    using assms(1) by (rule between_column)
  have lb: "list_all2 (\<lambda>x v. v = in_interval lat_min lat_max (lookup (snd x) ''latitude'')) xs b"
    using assms(2) by (rule between_column)
  from la lb show ?thesis
    by (auto simp: list_all2_conv_all_nth series_and_def in_box_def)
qed

lemma select_box:
  "map fst (filter snd (zip xs
     (map2 (\<and>) (map (\<lambda>x. in_interval lon_min lon_max (lookup (snd x) ''longitude'')) xs)
                 (map (\<lambda>x. in_interval lat_min lat_max (lookup (snd x) ''latitude'')) xs)))) =
   filter (\<lambda>x. in_box (snd x)) xs"
  by (induction xs) (auto simp: in_box_def)

lemma bounding_box_Inr:
  assumes "bounding_box df = Inr out"
  shows "columns out = columns df"
    and "rows out = filter (\<lambda>x. in_box (snd x)) (rows df)"
    and "''longitude'' \<in> set (columns df)"
    and "''latitude'' \<in> set (columns df)"
proof -
  from assms obtain a b where
    k1: "''longitude'' \<in> set (columns df)" and
    k2: "''latitude'' \<in> set (columns df)" and
    a: "between (map (\<lambda>(i, r). lookup r ''longitude'') (rows df)) lon_min lon_max = Inr a" and
    b: "between (map (\<lambda>(i, r). lookup r ''latitude'') (rows df)) lat_min lat_max = Inr b" and
    s: "select_rows df (series_and a b) = Inr out"
    by (auto simp: bounding_box_def getitem_def split: sum.splits if_splits)
  from s have d: "out = df\<lparr>rows := map fst (filter snd (zip (rows df) (series_and a b)))\<rparr>"
    by (auto simp: select_rows_def split: if_splits)
  show "columns out = columns df" using d by simp
  show "''longitude'' \<in> set (columns df)" by (rule k1)
  show "''latitude'' \<in> set (columns df)" by (rule k2)
  show "rows out = filter (\<lambda>x. in_box (snd x)) (rows df)"
    using d mask_filter [OF box_column [OF a b]] by simp
qed

lemma bounding_box_ok:
  assumes "''longitude'' \<in> set (columns df)" and "''latitude'' \<in> set (columns df)"
    and "\<forall>x \<in> set (rows df). numeric (lookup (snd x) ''longitude'')"
    and "\<forall>x \<in> set (rows df). numeric (lookup (snd x) ''latitude'')"
  shows "bounding_box df = Inr (df\<lparr>rows := filter (\<lambda>x. in_box (snd x)) (rows df)\<rparr>)"
proof -
  show ?thesis
    using assms(1,2) select_box [of "rows df"] between_ok [OF assms(3), of lon_min lon_max]
      between_ok [OF assms(4), of lat_min lat_max]
    by (simp add: bounding_box_def getitem_def select_rows_def series_and_def)
qed

text \<open>The conversion touches \<^verbatim>\<open>last_review\<close> only, so it changes neither label nor bounds.\<close>

lemma lookup_converted:
  "c \<noteq> ''last_review'' \<Longrightarrow> lookup (snd (converted L x)) c = lookup (snd x) c"
  by (simp add: converted_def lookup_def split: sum.splits)

lemma snd_converted_other:
  "c \<noteq> ''last_review'' \<Longrightarrow> snd (converted L x) c = snd x c"
  by (simp add: converted_def split: sum.splits)

lemma fst_converted: "fst (converted L x) = fst x"
  by (simp add: converted_def split: sum.splits)

lemma in_box_converted: "in_box (snd (converted L x)) = in_box (snd x)"
  by (simp add: in_box_def lookup_converted)

lemma in_bounds_converted: "in_bounds lo hi (snd (converted L x)) = in_bounds lo hi (snd x)"
  by (simp add: in_bounds_def in_box_converted lookup_converted)

lemma apart_converted: "apart_from_last_review (converted L x) = apart_from_last_review x"
  by (simp add: apart_from_last_review_def converted_def split: sum.splits)


lemma to_datetime_cell_Inr: "to_datetime_cell L c = Inr d \<Longrightarrow> \<exists>t. d = Dt t"
  by (cases "(L, c)" rule: to_datetime_cell.cases) (auto split: option.splits)

lemma converted_again:
  assumes "to_datetime_cell L (lookup (snd y) ''last_review'') = Inr d"
  shows "converted L (converted L y) = converted L y"
proof -
  from assms obtain t where "d = Dt t" by (auto dest: to_datetime_cell_Inr)
  with assms show ?thesis by (simp add: converted_def lookup_def)
qed

text \<open>
  The table that \<open>clean\<close> returns: the rows of the input inside the three bounds, in order,
  each with its date converted.
\<close>

lemma clean_Inr:
  assumes "clean L lo hi df = Inr out"
  shows "columns out = columns df"
    and "rows out = map (converted L) (filter (\<lambda>x. in_bounds lo hi (snd x)) (rows df))"
    and "\<forall>x \<in> set (rows df). in_interval lo hi (lookup (snd x) ''price'') \<longrightarrow>
           (\<exists>d. to_datetime_cell L (lookup (snd x) ''last_review'') = Inr d)"
proof -
  from assms obtain df1 df2 where
    1: "drop_outliers lo hi df = Inr df1" and
    2: "convert_last_review L df1 = Inr df2" and
    3: "bounding_box df2 = Inr out"
    by (auto simp: clean_def split: sum.splits)
  show "columns out = columns df"
    using drop_outliers_Inr(1) [OF 1] convert_last_review_Inr(1) [OF 2] bounding_box_Inr(1) [OF 3]
    by simp
  have "rows out = filter (\<lambda>x. in_box (snd x)) (map (converted L)
      (filter (\<lambda>x. in_interval lo hi (lookup (snd x) ''price'')) (rows df)))"
    using drop_outliers_Inr(2) [OF 1] convert_last_review_Inr(2) [OF 2] bounding_box_Inr(2) [OF 3]
    by simp
  also have "\<dots> = map (converted L) (filter (\<lambda>x. in_bounds lo hi (snd x)) (rows df))"
    by (simp add: filter_map comp_def in_box_converted in_bounds_def conj_commute)
  finally show "rows out = map (converted L) (filter (\<lambda>x. in_bounds lo hi (snd x)) (rows df))" .
  show "\<forall>x \<in> set (rows df). in_interval lo hi (lookup (snd x) ''price'') \<longrightarrow>
           (\<exists>d. to_datetime_cell L (lookup (snd x) ''last_review'') = Inr d)"
    using drop_outliers_Inr(2) [OF 1] convert_last_review_Inr(4) [OF 2] by auto
qed


text \<open>
  When the cleaning returns a table: the four columns are there, the prices are numbers,
  and the rows of a price in range have a \<^verbatim>\<open>last_review\<close> that converts and coordinates
  that are numbers.
\<close>

lemma clean_returns:
  assumes "''price'' \<in> set (columns df)" and "''last_review'' \<in> set (columns df)"
    and "''longitude'' \<in> set (columns df)" and "''latitude'' \<in> set (columns df)"
    and "\<forall>x \<in> set (rows df). numeric (lookup (snd x) ''price'')"
    and "\<forall>x \<in> set (rows df). in_interval lo hi (lookup (snd x) ''price'') \<longrightarrow>
           (\<exists>d. to_datetime_cell L (lookup (snd x) ''last_review'') = Inr d) \<and>
           numeric (lookup (snd x) ''longitude'') \<and> numeric (lookup (snd x) ''latitude'')"
  shows "clean L lo hi df =
         Inr (df\<lparr>rows := map (converted L) (filter (\<lambda>x. in_bounds lo hi (snd x)) (rows df))\<rparr>)"
proof -
  let ?p = "\<lambda>x. in_interval lo hi (lookup (snd x) ''price'')"
  let ?df1 = "df\<lparr>rows := filter ?p (rows df)\<rparr>"
  let ?df2 = "df\<lparr>rows := map (converted L) (filter ?p (rows df))\<rparr>"
  have a: "drop_outliers lo hi df = Inr ?df1"
    using assms(1,5) by (rule drop_outliers_ok)
  have b: "convert_last_review L ?df1 = Inr ?df2"
    using convert_last_review_ok [of ?df1 L] assms(2,6) by simp
  have c: "bounding_box ?df2 =
      Inr (df\<lparr>rows := filter (\<lambda>x. in_box (snd x)) (map (converted L) (filter ?p (rows df)))\<rparr>)"
    using bounding_box_ok [of ?df2] assms(3,4,6) by (simp add: lookup_converted)
  have "filter (\<lambda>x. in_box (snd x)) (map (converted L) (filter ?p (rows df))) =
        map (converted L) (filter (\<lambda>x. in_bounds lo hi (snd x)) (rows df))"
    by (simp add: filter_map comp_def in_box_converted in_bounds_def conj_commute)
  with a b c show ?thesis by (simp add: clean_def)
qed

section \<open>What the steps on the world change\<close>

lemma read_input_world:
  assumes "read_input L a w = (r, w1)"
  shows "server w1 = server w" and "link_ok w1 = link_ok w" and "can_write w1 = can_write w"
  using assms
  by (auto simp: read_input_def artifact_file_def write_file_def
      split: sum.splits option.splits if_splits prod.splits)


lemma write_output_Inr:
  assumes "write_output L a w = (Inr u, w2)"
  shows "\<exists>df w1 out. read_input L a w = (Inr df, w1) \<and>
           clean L (min_price a) (max_price a) df = Inr out \<and>
           can_write w1 (output_artifact a) \<and>
           w2 = w1\<lparr>disk := (disk w1)(output_artifact a \<mapsto> to_csv L out False)\<rparr>"
  using assms
  by (auto simp: write_output_def write_file_def split: sum.splits prod.splits if_splits)



lemma publish_written:
  assumes "disk w (output_artifact a) = Some f"
  shows "publish a w =
         (if link_ok w
          then (Inr (), w\<lparr>server := \<lparr>aname = output_artifact a, atype = output_type a,
                  adescription = output_description a, afile = Some f\<rparr> # server w,
                  disk := (disk w)(output_artifact a := None)\<rparr>)
          else (Inl UploadError, w))"
  using assms by (simp add: publish_def add_file_def log_artifact_def os_remove_def)

section \<open>The sample run, evaluated\<close>

lemmas sample_defs = sample_frame_def sample_out_def sample_columns_def sample_row_def sample_kept_def
  sample_lib_def sample_parse_def unparsable_frame_def boundary_frame_def
  missing_review_frame_def

lemmas step_defs = clean_def drop_outliers_def convert_last_review_def bounding_box_def
  getitem_def between_def to_datetime_def select_rows_def setitem_def series_and_def
  lookup_def fge_def lon_min_def lon_max_def lat_min_def lat_max_def

lemmas io_defs = go_function_def write_output_def read_input_def publish_def use_artifact_def
  artifact_file_def local_path_def write_file_def pd_read_csv_def add_file_def
  log_artifact_def os_remove_def sample_world_def sample_args_def sample_read_csv_def

lemma sample_lib_sel:
  "read_csv sample_lib = sample_read_csv"
  "parse_datetime sample_lib = sample_parse"
  "render sample_lib = sample_render"
  by (simp_all add: sample_lib_def)

lemma sample_clean: "clean sample_lib (Fin 10) (Fin 100) sample_frame = Inr sample_out"
  by (simp add: sample_defs step_defs)

lemma sample_read:
  "fst (read_input sample_lib sample_args sample_world) = Inr sample_frame"
  by (simp add: io_defs sample_lib_sel)

lemma sample_go:
  "fst (go_function sample_lib sample_args sample_world) = Inr ()"
  by (simp add: io_defs sample_lib_sel sample_clean)

text \<open>The same run when the artifact is unknown, when the file cannot be written, when the upload fails.\<close>

lemma sample_unknown_artifact:
  "go_function sample_lib (sample_args\<lparr>input_artifact := ''nothing''\<rparr>) sample_world =
   (Inl ArtifactNotFound, sample_world)"
  by (simp add: io_defs)

lemma sample_write_fails:
  "fst (go_function sample_lib sample_args
          (sample_world\<lparr>can_write := (\<lambda>p. p \<noteq> ''clean_sample.csv'')\<rparr>)) = Inl OSError"
  by (simp add: io_defs sample_lib_sel sample_clean)

lemma sample_upload_fails:
  "fst (go_function sample_lib sample_args (sample_world\<lparr>link_ok := False\<rparr>)) =
   Inl UploadError"
  by (simp add: io_defs sample_lib_sel sample_clean)

section \<open>The claims\<close>

subsection \<open>C1: the rows kept are the rows inside the three bounds\<close>



subsection \<open>C2: the price interval is closed\<close>

text \<open>
  Claim C2, as stated, for all bounds: a row whose price equals \<open>min_price\<close> is retained
  when its coordinates are in the box. With the bounds 100 and 10 the row of price 100 is
  in the box and equals \<open>min_price\<close>, and the output is empty.
\<close>

theorem price_at_bound_dropped:
  "lookup (sample_row 100 (- 73.875) 40.75 ''2019-05-01'') ''price'' = Num (Fin 100) \<and>
   in_box (sample_row 100 (- 73.875) 40.75 ''2019-05-01'') \<and>
   clean sample_lib (Fin 100) (Fin 10) boundary_frame =
     Inr \<lparr>columns = sample_columns, rows = []\<rparr>"
  by (simp add: sample_defs step_defs in_box_def)

text \<open>
  Claim C2, amended: when \<open>min_price \<le> max_price\<close>, a row whose price equals \<open>min_price\<close>
  or equals \<open>max_price\<close> is in every table the price filter returns, and, when its
  coordinates are in the box, it appears in every table the cleaning returns.
\<close>

theorem price_at_bound_retained:
  assumes "fle lo hi"
    and "(i, r) \<in> set (rows df)"
    and "lookup r ''price'' = Num lo \<or> lookup r ''price'' = Num hi"
  shows "(\<forall>df1. drop_outliers lo hi df = Inr df1 \<longrightarrow> (i, r) \<in> set (rows df1)) \<and>
         (\<forall>out. clean L lo hi df = Inr out \<and> in_box r \<longrightarrow> appears (i, r) out)"
proof -
  have p: "in_interval lo hi (lookup r ''price'')"
    using assms(1,3) fle_refl [OF assms(1)] by auto
  have a: "(i, r) \<in> set (rows df1)" if "drop_outliers lo hi df = Inr df1" for df1
    using drop_outliers_Inr(2) [OF that] assms(2) p by simp
  have b: "appears (i, r) out" if h: "clean L lo hi df = Inr out \<and> in_box r" for out
  proof -
    from p h have "in_bounds lo hi r" by (simp add: in_bounds_def)
    with clean_Inr(2) [of L lo hi df out] h assms(2)
    have "converted L (i, r) \<in> set (rows out)" by force
    then have "(i, snd (converted L (i, r))) \<in> set (rows out)"
      by (metis fst_converted prod.collapse fst_conv)
    then show ?thesis
      unfolding appears_def using snd_converted_other [of _ L "(i, r)"] by auto
  qed
  from a b show ?thesis by blast
qed

text \<open>C2 on the sample table with the bounds 50 and 100: the first row has the price 50.\<close>

theorem price_at_bound_retained_witness:
  "fle (Fin 50) (Fin 100) \<and> lookup sample_kept ''price'' = Num (Fin 50) \<and>
   clean sample_lib (Fin 50) (Fin 100) sample_frame = Inr sample_out \<and>
   appears (0, sample_kept) sample_out"
proof -
  have h: "clean sample_lib (Fin 50) (Fin 100) sample_frame = Inr sample_out"
    by (simp add: sample_defs step_defs)
  have b: "fle (Fin 50) (Fin 100)" by simp
  have m: "(0, sample_kept) \<in> set (rows sample_frame)" by (simp add: sample_frame_def)
  have p: "lookup sample_kept ''price'' = Num (Fin 50)"
    by (simp add: sample_defs lookup_def)
  then have q: "lookup sample_kept ''price'' = Num (Fin 50) \<or>
      lookup sample_kept ''price'' = Num (Fin 100)" by simp
  have x: "in_box sample_kept" by (simp add: sample_defs step_defs in_box_def)
  from price_at_bound_retained [OF b m q, of sample_lib] h x b p show ?thesis by blast
qed

subsection \<open>C3: cleaning a cleaned table changes nothing\<close>

text \<open>
  Claim C3. The filter is idempotent: when the cleaning of a table \<open>T\<close> returns a table,
  the cleaning of that table with the same bounds returns it unchanged.
\<close>

theorem clean_idempotent:
  assumes "clean L lo hi df = Inr out"
  shows "clean L lo hi out = Inr out"
proof -
  from assms obtain df1 df2 where
    1: "drop_outliers lo hi df = Inr df1" and
    2: "convert_last_review L df1 = Inr df2" and
    3: "bounding_box df2 = Inr out"
    by (auto simp: clean_def split: sum.splits)
  note c = clean_Inr [OF assms]
  have cols: "''price'' \<in> set (columns out)" "''last_review'' \<in> set (columns out)"
    "''longitude'' \<in> set (columns out)" "''latitude'' \<in> set (columns out)"
    using drop_outliers_Inr(1,3) [OF 1] convert_last_review_Inr(1,3) [OF 2]
      bounding_box_Inr(1,3,4) [OF 3] by simp_all
  have kept: "\<forall>x \<in> set (rows out). in_bounds lo hi (snd x)"
    using c(2) by (auto simp: in_bounds_converted)
  have same: "map (converted L) (rows out) = rows out"
    unfolding c(2) map_map using c(3)
    by (intro map_cong refl) (auto simp: in_bounds_def dest!: bspec intro: converted_again)
  have dates: "\<forall>x \<in> set (rows out). \<exists>d. to_datetime_cell L (lookup (snd x) ''last_review'') = Inr d"
  proof
    fix x assume "x \<in> set (rows out)"
    then obtain y where y: "y \<in> set (rows df)" "in_bounds lo hi (snd y)" "x = converted L y"
      using c(2) by auto
    with c(3) obtain d where d: "to_datetime_cell L (lookup (snd y) ''last_review'') = Inr d"
      by (auto simp: in_bounds_def)
    then obtain t where "d = Dt t" by (auto dest: to_datetime_cell_Inr)
    with d y(3) show "\<exists>d. to_datetime_cell L (lookup (snd x) ''last_review'') = Inr d"
      by (simp add: converted_def lookup_def)
  qed
  have a: "drop_outliers lo hi out = Inr out"
    using drop_outliers_ok [OF cols(1), of lo hi] kept
    by (auto simp: in_bounds_def dest: in_interval_numeric)
  have b: "convert_last_review L out = Inr out"
    using convert_last_review_ok [OF cols(2) dates] same by simp
  have c: "bounding_box out = Inr out"
    using bounding_box_ok [OF cols(3,4)] kept
    by (auto simp: in_bounds_def in_box_def dest: in_interval_numeric)
  from a b c show ?thesis by (simp add: clean_def)
qed

text \<open>C3 on the sample table.\<close>

theorem clean_idempotent_witness:
  "clean sample_lib (Fin 10) (Fin 100) sample_frame = Inr sample_out \<and>
   clean sample_lib (Fin 10) (Fin 100) sample_out = Inr sample_out"
proof -
  have h: "clean sample_lib (Fin 10) (Fin 100) sample_frame = Inr sample_out"
    by (simp add: sample_defs step_defs)
  from clean_idempotent [OF h] h show ?thesis by simp
qed

subsection \<open>C4: bounds in the wrong order give an empty table\<close>

text \<open>
  Claim C4. If \<open>min_price > max_price\<close> then the price filter is false on every value and
  every table the cleaning returns has no rows; and it does return the table without rows
  when the four columns are there and the prices are numbers.
\<close>

theorem inverted_bounds_empty:
  assumes "fgt lo hi"
  shows "(\<forall>c b. between_cell lo hi c = Inr b \<longrightarrow> \<not> b) \<and>
         (\<forall>out. clean L lo hi df = Inr out \<longrightarrow> rows out = []) \<and>
         (''price'' \<in> set (columns df) \<and> ''last_review'' \<in> set (columns df) \<and>
          ''longitude'' \<in> set (columns df) \<and> ''latitude'' \<in> set (columns df) \<and>
          (\<forall>x \<in> set (rows df). numeric (lookup (snd x) ''price'')) \<longrightarrow>
          clean L lo hi df = Inr (df\<lparr>rows := []\<rparr>))"
proof (intro conjI allI impI)
  fix c b assume "between_cell lo hi c = Inr b"
  from between_cell_Inr [OF this] fgt_empty [OF assms] show "\<not> b" by simp
next
  fix out assume "clean L lo hi df = Inr out"
  from clean_Inr(2) [OF this] show "rows out = []"
    using fgt_empty [OF assms] by (simp add: in_bounds_def)
next
  assume h: "''price'' \<in> set (columns df) \<and> ''last_review'' \<in> set (columns df) \<and>
          ''longitude'' \<in> set (columns df) \<and> ''latitude'' \<in> set (columns df) \<and>
          (\<forall>x \<in> set (rows df). numeric (lookup (snd x) ''price''))"
  let ?e = "df\<lparr>rows := []\<rparr>"
  have a: "drop_outliers lo hi df = Inr ?e"
    using drop_outliers_ok [of df lo hi] h fgt_empty [OF assms] by simp
  have b: "convert_last_review L ?e = Inr ?e"
    using convert_last_review_ok [of ?e L] h by simp
  have c: "bounding_box ?e = Inr ?e"
    using bounding_box_ok [of ?e] h by simp
  from a b c show "clean L lo hi df = Inr ?e" by (simp add: clean_def)
qed

text \<open>C4 on the sample table with the bounds 100 and 10.\<close>

theorem inverted_bounds_empty_witness:
  "fgt (Fin 100) (Fin 10) \<and>
   clean sample_lib (Fin 100) (Fin 10) sample_frame = Inr (sample_frame\<lparr>rows := []\<rparr>)"
proof -
  have g: "fgt (Fin 100) (Fin 10)" by (simp add: fgt_def)
  have c: "''price'' \<in> set (columns sample_frame) \<and>
      ''last_review'' \<in> set (columns sample_frame) \<and>
      ''longitude'' \<in> set (columns sample_frame) \<and>
      ''latitude'' \<in> set (columns sample_frame) \<and>
      (\<forall>x \<in> set (rows sample_frame). numeric (lookup (snd x) ''price''))"
    by (simp add: sample_defs lookup_def)
  from inverted_bounds_empty [OF g, of sample_lib sample_frame] c g show ?thesis by blast
qed

subsection \<open>C5: a parseable date comes out as a date\<close>



subsection \<open>C6: a date that does not parse\<close>

text \<open>
  Claim C6, as stated: a row that passes the price filter and whose \<^verbatim>\<open>last_review\<close> cannot
  be converted comes out with a marker, and the run does not fail. On the table whose only
  row has the price 50 and the review date \<^verbatim>\<open>unknown\<close>, with the bounds 10 and 100, the
  cleaning raises \<^verbatim>\<open>ValueError\<close>: there is no output record.
\<close>

theorem unparsable_date_raises:
  "in_interval (Fin 10) (Fin 100)
     (lookup (sample_row 50 (- 73.875) 40.75 ''unknown'') ''price'') \<and>
   lookup (sample_row 50 (- 73.875) 40.75 ''unknown'') ''last_review'' = Str ''unknown'' \<and>
   parse_datetime sample_lib ''unknown'' = None \<and>
   clean sample_lib (Fin 10) (Fin 100) unparsable_frame = Inl ValueError"
  by (simp add: sample_defs step_defs)

text \<open>
  Claim C6, amended, for a row of the input that passes the price filter. When its
  \<^verbatim>\<open>last_review\<close> is a string that does not parse as a date, the cleaning fails with an
  error and returns no table; a run that has read this table ends with an error, in the
  world as it was after the reading, and publishes nothing. When its \<^verbatim>\<open>last_review\<close> is
  missing and the row is in the box, every table the cleaning returns has the row with the
  null date \<^verbatim>\<open>NaT\<close> as its \<^verbatim>\<open>last_review\<close>.
\<close>

theorem unparsable_date_fails:
  assumes "(i, r) \<in> set (rows df)"
    and "in_interval lo hi (lookup r ''price'')"
  shows "(\<forall>s. lookup r ''last_review'' = Str s \<and> parse_datetime L s = None \<longrightarrow>
            (\<exists>e. clean L lo hi df = Inl e) \<and>
            (\<forall>a w w1. read_input L a w = (Inr df, w1) \<and> min_price a = lo \<and> max_price a = hi \<longrightarrow>
               (\<exists>e. go_function L a w = (Inl e, w1)) \<and> server w1 = server w)) \<and>
         (\<forall>out. lookup r ''last_review'' = Num NaN \<and> in_box r \<and> clean L lo hi df = Inr out \<longrightarrow>
            (i, r(''last_review'' \<mapsto> Dt NaT)) \<in> set (rows out))"
proof -
  have fails: "\<exists>e. clean L lo hi df = Inl e"
    if u: "lookup r ''last_review'' = Str s \<and> parse_datetime L s = None" for s
  proof (cases "clean L lo hi df")
    case (Inl e)
    then show ?thesis by blast
  next
    case (Inr out)
    from clean_Inr(3) [OF Inr] assms
    have "\<exists>d. to_datetime_cell L (lookup r ''last_review'') = Inr d" by force
    with u show ?thesis by simp
  qed
  have ends: "(\<exists>e. go_function L a w = (Inl e, w1)) \<and> server w1 = server w"
    if u: "lookup r ''last_review'' = Str s \<and> parse_datetime L s = None"
      and v: "read_input L a w = (Inr df, w1) \<and> min_price a = lo \<and> max_price a = hi"
    for s a w w1
  proof -
    from fails [OF u] obtain e where "clean L lo hi df = Inl e" by blast
    with v have "go_function L a w = (Inl e, w1)"
      by (simp add: go_function_def write_output_def)
    moreover from v have "server w1 = server w" by (auto dest: read_input_world(1))
    ultimately show ?thesis by blast
  qed
  have missing: "(i, r(''last_review'' \<mapsto> Dt NaT)) \<in> set (rows out)"
    if m: "lookup r ''last_review'' = Num NaN \<and> in_box r \<and> clean L lo hi df = Inr out"
    for out
  proof -
    from m have "converted L (i, r) = (i, r(''last_review'' \<mapsto> Dt NaT))"
      by (simp add: converted_def)
    moreover have "converted L (i, r) \<in> set (rows out)"
      using clean_Inr(2) [of L lo hi df out] m assms by (force simp: in_bounds_def)
    ultimately show ?thesis by simp
  qed
  from fails ends missing show ?thesis by blast
qed

text \<open>
  C6 on the table with the review date \<^verbatim>\<open>unknown\<close>, and on the table with no review
  date.
\<close>

theorem unparsable_date_fails_witness:
  "parse_datetime sample_lib ''unknown'' = None \<and>
   (\<exists>e. clean sample_lib (Fin 10) (Fin 100) unparsable_frame = Inl e) \<and>
   clean sample_lib (Fin 10) (Fin 100) missing_review_frame =
     Inr \<lparr>columns = sample_columns, rows = [(0, sample_kept(''last_review'' \<mapsto> Dt NaT))]\<rparr> \<and>
   (0, sample_kept(''last_review'' \<mapsto> Dt NaT)) \<in>
     set (rows \<lparr>columns = sample_columns, rows = [(0, sample_kept(''last_review'' \<mapsto> Dt NaT))]\<rparr>)"
proof -
  have m: "(0, sample_row 50 (- 73.875) 40.75 ''unknown'') \<in> set (rows unparsable_frame)"
    by (simp add: unparsable_frame_def)
  have b: "in_interval (Fin 10) (Fin 100)
      (lookup (sample_row 50 (- 73.875) 40.75 ''unknown'') ''price'')"
    by (simp add: sample_defs lookup_def)
  have s: "lookup (sample_row 50 (- 73.875) 40.75 ''unknown'') ''last_review'' = Str ''unknown''"
    by (simp add: sample_defs lookup_def)
  have p: "parse_datetime sample_lib ''unknown'' = None"
    by (simp add: sample_lib_sel sample_parse_def)
  have m': "(0, sample_kept(''last_review'' \<mapsto> Num NaN)) \<in> set (rows missing_review_frame)"
    by (simp add: missing_review_frame_def)
  have b': "in_interval (Fin 10) (Fin 100)
      (lookup (sample_kept(''last_review'' \<mapsto> Num NaN)) ''price'')"
    by (simp add: sample_defs lookup_def)
  have s': "lookup (sample_kept(''last_review'' \<mapsto> Num NaN)) ''last_review'' = Num NaN"
    by (simp add: lookup_def)
  have x': "in_box (sample_kept(''last_review'' \<mapsto> Num NaN))"
    by (simp add: sample_defs step_defs in_box_def)
  have h': "clean sample_lib (Fin 10) (Fin 100) missing_review_frame =
      Inr \<lparr>columns = sample_columns, rows = [(0, sample_kept(''last_review'' \<mapsto> Dt NaT))]\<rparr>"
    by (simp add: sample_defs step_defs)
  from unparsable_date_fails [OF m b, of sample_lib] s p
  have "\<exists>e. clean sample_lib (Fin 10) (Fin 100) unparsable_frame = Inl e" by blast
  moreover from unparsable_date_fails [OF m' b', of sample_lib] s' x' h'
  have "(0, sample_kept(''last_review'' \<mapsto> Dt NaT)) \<in>
     set (rows \<lparr>columns = sample_columns, rows = [(0, sample_kept(''last_review'' \<mapsto> Dt NaT))]\<rparr>)"
    by simp
  ultimately show ?thesis using p h' by blast
qed

subsection \<open>C7: the file written\<close>

text \<open>
  Claim C7. After a run that succeeds, the file of the artifact registered is the header
  row, which is exactly the columns of the cleaned table, followed by one record for each
  row of the cleaned table, in order, with one field for each column: there is no index
  column.
\<close>

theorem output_file_header_and_rows:
  assumes "go_function L a w = (Inr (), w')"
  shows "\<exists>df w1 out art. read_input L a w = (Inr df, w1) \<and>
           clean L (min_price a) (max_price a) df = Inr out \<and>
           server w' = art # server w \<and> aname art = output_artifact a \<and>
           afile art = Some (columns out #
             map (\<lambda>x. map (\<lambda>c. render L (lookup (snd x) c)) (columns out)) (rows out))"
proof -
  from assms obtain w2 where wo: "write_output L a w = (Inr (), w2)"
    and p: "publish a w2 = (Inr (), w')"
    by (auto simp: go_function_def split: prod.splits sum.splits)
  from write_output_Inr [OF wo] obtain df w1 out where
    r: "read_input L a w = (Inr df, w1)" and
    c: "clean L (min_price a) (max_price a) df = Inr out" and
    w2: "w2 = w1\<lparr>disk := (disk w1)(output_artifact a \<mapsto> to_csv L out False)\<rparr>"
    by blast
  have d: "disk w2 (output_artifact a) = Some (to_csv L out False)" using w2 by simp
  have s: "server w2 = server w" using w2 read_input_world(1) [OF r] by simp
  from p publish_written [OF d] s
  have "server w' = \<lparr>aname = output_artifact a, atype = output_type a,
      adescription = output_description a, afile = Some (to_csv L out False)\<rparr> # server w"
    by (auto split: if_splits)
  with r c show ?thesis
    by (auto simp: to_csv_def case_prod_unfold)
qed

text \<open>C7 on the sample run: the file has the header and the one row kept.\<close>

theorem output_file_header_and_rows_witness:
  "\<exists>art. server (snd (go_function sample_lib sample_args sample_world)) =
           art # server sample_world \<and>
         aname art = ''clean_sample.csv'' \<and>
         afile art = Some [[''price'', ''longitude'', ''latitude'', ''last_review''],
                           [''50'', ''-73.875'', ''40.75'', ''2019-05-01'']]"
proof -
  have h: "go_function sample_lib sample_args sample_world =
           (Inr (), snd (go_function sample_lib sample_args sample_world))"
    using sample_go by (simp add: prod_eq_iff)
  from output_file_header_and_rows [OF h] obtain df w1 out art where
    r: "read_input sample_lib sample_args sample_world = (Inr df, w1)" and
    c: "clean sample_lib (min_price sample_args) (max_price sample_args) df = Inr out" and
    s: "server (snd (go_function sample_lib sample_args sample_world)) = art # server sample_world"
       "aname art = output_artifact sample_args" and
    f: "afile art = Some (columns out #
             map (\<lambda>x. map (\<lambda>c. render sample_lib (lookup (snd x) c)) (columns out)) (rows out))"
    by blast
  from r sample_read have "df = sample_frame" by simp
  with c sample_clean have "out = sample_out" by (simp add: sample_args_def)
  with f have "afile art = Some [[''price'', ''longitude'', ''latitude'', ''last_review''],
                           [''50'', ''-73.875'', ''40.75'', ''2019-05-01'']]"
    by (simp add: sample_out_def sample_columns_def sample_row_def sample_kept_def
        sample_lib_sel lookup_def)
  with s show ?thesis by (auto simp: sample_args_def)
qed

subsection \<open>C8: nothing is published unless the file was written\<close>



subsection \<open>C9: the order of the rows\<close>

text \<open>
  Claim C9. When the cleaning returns a table, its rows, \<^verbatim>\<open>last_review\<close> apart, are a
  subsequence of the rows of the input: they come in the same relative order.
\<close>

theorem clean_preserves_order:
  assumes "clean L lo hi df = Inr out"
  shows "subseq (map apart_from_last_review (rows out)) (map apart_from_last_review (rows df))"
proof -
  have "map apart_from_last_review (rows out) =
        map apart_from_last_review (filter (\<lambda>x. in_bounds lo hi (snd x)) (rows df))"
    using clean_Inr(2) [OF assms] by (simp add: apart_converted comp_def)
  then show ?thesis by (simp add: subseq_map)
qed

text \<open>C9 on the sample table.\<close>

theorem clean_preserves_order_witness:
  "subseq (map apart_from_last_review (rows sample_out))
     (map apart_from_last_review (rows sample_frame))"
proof -
  have h: "clean sample_lib (Fin 10) (Fin 100) sample_frame = Inr sample_out"
    by (simp add: sample_defs step_defs)
  from clean_preserves_order [OF h] show ?thesis .
qed

subsection \<open>C10: only \<^verbatim>\<open>last_review\<close> changes\<close>

text \<open>
  Claim C10. When the cleaning returns a table, it has the columns of the input, and each
  of its records is a row of the input, with the same label, in which \<^verbatim>\<open>last_review\<close> was
  replaced by its conversion to a date: every other column has the value it had.
\<close>

theorem clean_changes_only_last_review:
  assumes "clean L lo hi df = Inr out"
  shows "columns out = columns df \<and>
         (\<forall>(i, r') \<in> set (rows out). \<exists>r d. (i, r) \<in> set (rows df) \<and>
             to_datetime_cell L (lookup r ''last_review'') = Inr d \<and>
             r' = r(''last_review'' \<mapsto> d) \<and>
             (\<forall>c. c \<noteq> ''last_review'' \<longrightarrow> r' c = r c))"
proof (intro conjI ballI)
  show "columns out = columns df" by (rule clean_Inr(1) [OF assms])
next
  fix x assume "x \<in> set (rows out)"
  then obtain y where y: "y \<in> set (rows df)" "in_bounds lo hi (snd y)" "x = converted L y"
    using clean_Inr(2) [OF assms] by auto
  with clean_Inr(3) [OF assms] obtain d where
    d: "to_datetime_cell L (lookup (snd y) ''last_review'') = Inr d"
    by (auto simp: in_bounds_def)
  with y(3) have x: "x = (fst y, (snd y)(''last_review'' \<mapsto> d))" by (simp add: converted_def)
  obtain j r where yy: "y = (j, r)" by (cases y)
  from x d y(1) show "case x of (i, r') \<Rightarrow> \<exists>r d. (i, r) \<in> set (rows df) \<and>
             to_datetime_cell L (lookup r ''last_review'') = Inr d \<and>
             r' = r(''last_review'' \<mapsto> d) \<and>
             (\<forall>c. c \<noteq> ''last_review'' \<longrightarrow> r' c = r c)"
    unfolding yy by auto
qed

text \<open>C10 on the sample table.\<close>

theorem clean_changes_only_last_review_witness:
  "columns sample_out = columns sample_frame \<and>
   (\<exists>r d. (0, r) \<in> set (rows sample_frame) \<and>
      to_datetime_cell sample_lib (lookup r ''last_review'') = Inr d \<and>
      sample_kept(''last_review'' \<mapsto> Dt (Timestamp 1556668800000000000)) =
        r(''last_review'' \<mapsto> d))"
proof -
  have h: "clean sample_lib (Fin 10) (Fin 100) sample_frame = Inr sample_out"
    by (simp add: sample_defs step_defs)
  from clean_changes_only_last_review [OF h] show ?thesis
    by (simp add: sample_out_def) blast
qed

end
